theory Spec2Isabelle
  imports Main "HOL-Library.Sublist"
begin

section \<open>The branch and commit data model of \<open>vbranches/types.ts\<close>\<close>

text \<open>
  A shallow embedding of the classes of \<open>app/src/lib/vbranches/types.ts\<close>. A class is a
  record whose fields carry the class name as a prefix (\<open>Commit_id\<close> is \<open>Commit.id\<close>), a
  getter is a function on the record, an optional field is an \<open>option\<close> (\<open>None\<close> is
  \<open>undefined\<close>), and a \<open>throw\<close> is the \<open>Inl\<close> branch of a sum.
\<close>

subsection \<open>JavaScript values used by the module\<close>

text \<open>
  A \<open>Date\<close> holds a time value in milliseconds since the epoch, or is the invalid date.
  \<open>new Date(n)\<close> for a number \<open>n\<close> clips: beyond \<open>8.64e15\<close> milliseconds on either
  side, the date is invalid. The backend sends whole numbers, so the raw value is an \<open>int\<close>.
\<close>

datatype Date = Date int | InvalidDate

definition new_Date :: "int \<Rightarrow> Date" where
  "new_Date v = (if \<bar>v\<bar> \<le> 8640000000000000 then Date v else InvalidDate)"

datatype js_error = TypeError | Error string

text \<open>A string is truthy when it is not empty.\<close>

definition truthy :: "string \<Rightarrow> bool" where
  "truthy s = (s \<noteq> [])"

subsection \<open>Author, RemoteCommit, Commit\<close>

record Author =
  Author_email :: "string option"
  Author_name :: "string option"
  Author_gravatarUrl :: "string option"
  Author_isBot :: "bool option"

datatype CommitStatus = local | localAndRemote | integrated | remote

text \<open>
  \<open>RemoteCommit.prev\<close>, \<open>next\<close> and \<open>relatedTo\<close> are object references set by callers
  after construction, which no getter of the class reads; they are left out of the record.
\<close>

record RemoteCommit =
  RemoteCommit_id :: string
  RemoteCommit_author :: Author
  RemoteCommit_description :: string
  RemoteCommit_createdAt :: Date
  RemoteCommit_changeId :: string
  RemoteCommit_isSigned :: bool
  RemoteCommit_parentIds :: "string list"

text \<open>
  Of \<open>Commit\<close>, the \<open>files\<close> and the \<open>prev\<close>/\<open>next\<close> links are left out; \<open>relatedTo\<close> is
  the optional \<open>RemoteCommit\<close>.
\<close>

record Commit =
  Commit_id :: string
  Commit_author :: Author
  Commit_description :: string
  Commit_createdAt :: Date
  Commit_isRemote :: bool
  Commit_isIntegrated :: bool
  Commit_parentIds :: "string list"
  Commit_branchId :: string
  Commit_changeId :: string
  Commit_isSigned :: bool
  Commit_relatedTo :: "RemoteCommit option"

definition Commit_isLocal :: "Commit \<Rightarrow> bool" where
  "Commit_isLocal c = (\<not> Commit_isRemote c \<and> \<not> Commit_isIntegrated c)"

text \<open>\<open>!this.relatedTo\<close> holds exactly when the field is undefined: an object is truthy.\<close>

definition Commit_status :: "Commit \<Rightarrow> CommitStatus" where
  "Commit_status c =
     (if Commit_isIntegrated c then integrated
      else if Commit_isRemote c \<and>
              (case Commit_relatedTo c of
                 None \<Rightarrow> True
               | Some r \<Rightarrow> Commit_id c = RemoteCommit_id r)
           then localAndRemote
      else local)"

definition RemoteCommit_isLocal :: "RemoteCommit \<Rightarrow> bool" where
  "RemoteCommit_isLocal r = False"

definition RemoteCommit_status :: "RemoteCommit \<Rightarrow> CommitStatus" where
  "RemoteCommit_status r = remote"

datatype AnyCommit = ACommit Commit | ARemoteCommit RemoteCommit

fun AnyCommit_id :: "AnyCommit \<Rightarrow> string" where
  "AnyCommit_id (ACommit c) = Commit_id c"
| "AnyCommit_id (ARemoteCommit r) = RemoteCommit_id r"

fun AnyCommit_changeId :: "AnyCommit \<Rightarrow> string" where
  "AnyCommit_changeId (ACommit c) = Commit_changeId c"
| "AnyCommit_changeId (ARemoteCommit r) = RemoteCommit_changeId r"

definition commitCompare :: "AnyCommit \<Rightarrow> AnyCommit \<Rightarrow> bool" where
  "commitCompare left right =
     (if AnyCommit_id left = AnyCommit_id right then True
      else if truthy (AnyCommit_changeId left) \<and> truthy (AnyCommit_changeId right) \<and>
              AnyCommit_changeId left = AnyCommit_changeId right then True
      else False)"

subsection \<open>Deserialization of commits\<close>

text \<open>
  The payload of a commit carries \<open>createdAt\<close> as a raw number. The \<open>@Transform\<close> of
  \<open>Commit.createdAt\<close> is \<open>new Date(obj.value)\<close>; the one of \<open>RemoteCommit.createdAt\<close> is
  \<open>new Date(obj.value * 1000)\<close>. Every other field is copied. A \<open>Commit\<close> payload from
  the backend has no \<open>relatedTo\<close>; callers set it later.
\<close>

record RemoteCommit_raw =
  RemoteCommit_raw_id :: string
  RemoteCommit_raw_author :: Author
  RemoteCommit_raw_description :: string
  RemoteCommit_raw_createdAt :: int
  RemoteCommit_raw_changeId :: string
  RemoteCommit_raw_isSigned :: bool
  RemoteCommit_raw_parentIds :: "string list"

record Commit_raw =
  Commit_raw_id :: string
  Commit_raw_author :: Author
  Commit_raw_description :: string
  Commit_raw_createdAt :: int
  Commit_raw_isRemote :: bool
  Commit_raw_isIntegrated :: bool
  Commit_raw_parentIds :: "string list"
  Commit_raw_branchId :: string
  Commit_raw_changeId :: string
  Commit_raw_isSigned :: bool

definition Commit_createdAt_Transform :: "int \<Rightarrow> Date" where
  "Commit_createdAt_Transform v = new_Date v"

definition RemoteCommit_createdAt_Transform :: "int \<Rightarrow> Date" where
  "RemoteCommit_createdAt_Transform v = new_Date (v * 1000)"

definition plainToInstance_RemoteCommit :: "RemoteCommit_raw \<Rightarrow> RemoteCommit" where
  "plainToInstance_RemoteCommit p =
     \<lparr>RemoteCommit_id = RemoteCommit_raw_id p,
      RemoteCommit_author = RemoteCommit_raw_author p,
      RemoteCommit_description = RemoteCommit_raw_description p,
      RemoteCommit_createdAt = RemoteCommit_createdAt_Transform (RemoteCommit_raw_createdAt p),
      RemoteCommit_changeId = RemoteCommit_raw_changeId p,
      RemoteCommit_isSigned = RemoteCommit_raw_isSigned p,
      RemoteCommit_parentIds = RemoteCommit_raw_parentIds p\<rparr>"

definition plainToInstance_Commit :: "Commit_raw \<Rightarrow> Commit" where
  "plainToInstance_Commit p =
     \<lparr>Commit_id = Commit_raw_id p,
      Commit_author = Commit_raw_author p,
      Commit_description = Commit_raw_description p,
      Commit_createdAt = Commit_createdAt_Transform (Commit_raw_createdAt p),
      Commit_isRemote = Commit_raw_isRemote p,
      Commit_isIntegrated = Commit_raw_isIntegrated p,
      Commit_parentIds = Commit_raw_parentIds p,
      Commit_branchId = Commit_raw_branchId p,
      Commit_changeId = Commit_raw_changeId p,
      Commit_isSigned = Commit_raw_isSigned p,
      Commit_relatedTo = None\<rparr>"

subsection \<open>Strings and arrays of JavaScript\<close>

text \<open>
  \<open>s.replace(pat, rep)\<close> with a string pattern replaces the first occurrence of \<open>pat\<close>
  in \<open>s\<close>, wherever it is, and leaves \<open>s\<close> unchanged when there is none. (The module only
  passes the empty replacement, so the dollar patterns of \<open>rep\<close> play no part.)
\<close>

fun replace :: "string \<Rightarrow> string \<Rightarrow> string \<Rightarrow> string" where
  "replace pat rep [] = (if pat = [] then rep else [])"
| "replace pat rep (c # cs) =
     (if prefix pat (c # cs) then rep @ drop (length pat) (c # cs)
      else c # replace pat rep cs)"

text \<open>\<open>s.includes(pat)\<close>: \<open>pat\<close> occurs somewhere in \<open>s\<close>.\<close>

fun includes_str :: "string \<Rightarrow> string \<Rightarrow> bool" where
  "includes_str [] pat = (pat = [])"
| "includes_str (c # cs) pat = (prefix pat (c # cs) \<or> includes_str cs pat)"

text \<open>\<open>s.split(sep)\<close> for a one-character separator; the empty string splits into one
  empty piece.\<close>

fun split :: "char \<Rightarrow> string \<Rightarrow> string list" where
  "split sep [] = [[]]"
| "split sep (c # cs) =
     (if c = sep then [] # split sep cs
      else (case split sep cs of
              [] \<Rightarrow> [[c]]
            | w # ws \<Rightarrow> (c # w) # ws))"

fun join :: "string \<Rightarrow> string list \<Rightarrow> string" where
  "join sep [] = []"
| "join sep [w] = w"
| "join sep (w # ws) = w @ sep @ join sep ws"

text \<open>\<open>xs[i]\<close>: \<open>undefined\<close> outside the array.\<close>

definition at_index :: "'a list \<Rightarrow> int \<Rightarrow> 'a option" where
  "at_index xs i = (if 0 \<le> i \<and> i < int (length xs) then Some (xs ! nat i) else None)"

text \<open>\<open>xs.findIndex(P)\<close>: the first index whose element satisfies \<open>P\<close>, or \<open>-1\<close>.\<close>

fun findIndex_from :: "('a \<Rightarrow> bool) \<Rightarrow> 'a list \<Rightarrow> int \<Rightarrow> int" where
  "findIndex_from P [] k = - 1"
| "findIndex_from P (x # xs) k = (if P x then k else findIndex_from P xs (k + 1))"

definition findIndex :: "('a \<Rightarrow> bool) \<Rightarrow> 'a list \<Rightarrow> int" where
  "findIndex P xs = findIndex_from P xs 0"

text \<open>\<open>xs.filter((x, index) => f(x, index))\<close>: the callback also gets the index.\<close>

fun filter_from :: "('a \<Rightarrow> int \<Rightarrow> bool) \<Rightarrow> 'a list \<Rightarrow> int \<Rightarrow> 'a list" where
  "filter_from f [] k = []"
| "filter_from f (x # xs) k =
     (if f x k then x # filter_from f xs (k + 1) else filter_from f xs (k + 1))"

definition filter_indexed :: "('a \<Rightarrow> int \<Rightarrow> bool) \<Rightarrow> 'a list \<Rightarrow> 'a list" where
  "filter_indexed f xs = filter_from f xs 0"

text \<open>An optional string inside a template literal prints as \<open>undefined\<close> when unset.\<close>

fun template :: "string option \<Rightarrow> string" where
  "template None = ''undefined''"
| "template (Some s) = s"

subsection \<open>RemoteBranchData\<close>

record RemoteBranchData =
  RemoteBranchData_sha :: string
  RemoteBranchData_name :: string
  RemoteBranchData_upstream :: "string option"
  RemoteBranchData_behind :: int
  RemoteBranchData_commits :: "RemoteCommit list"
  RemoteBranchData_isMergeable :: "bool option"
  RemoteBranchData_forkPoint :: "string option"

definition RemoteBranchData_ahead :: "RemoteBranchData \<Rightarrow> nat" where
  "RemoteBranchData_ahead d = length (RemoteBranchData_commits d)"

text \<open>\<open>this.commits[0]?.createdAt\<close>: the optional chain yields \<open>undefined\<close> on \<open>undefined\<close>.\<close>

definition RemoteBranchData_lastCommitTs :: "RemoteBranchData \<Rightarrow> Date option" where
  "RemoteBranchData_lastCommitTs d =
     (case at_index (RemoteBranchData_commits d) 0 of
        None \<Rightarrow> None
      | Some c \<Rightarrow> Some (RemoteCommit_createdAt c))"

text \<open>
  \<open>this.commits[this.commits.length - 1].createdAt\<close>: reading a property of \<open>undefined\<close>
  throws a \<open>TypeError\<close>.
\<close>

definition RemoteBranchData_firstCommitAt :: "RemoteBranchData \<Rightarrow> js_error + Date" where
  "RemoteBranchData_firstCommitAt d =
     (case at_index (RemoteBranchData_commits d)
             (int (length (RemoteBranchData_commits d)) - 1) of
        None \<Rightarrow> Inl TypeError
      | Some c \<Rightarrow> Inr (RemoteCommit_createdAt c))"

definition RemoteBranchData_authors :: "RemoteBranchData \<Rightarrow> Author list" where
  "RemoteBranchData_authors d =
     (let allAuthors = map RemoteCommit_author (RemoteBranchData_commits d);
          uniqueAuthors =
            filter_indexed
              (\<lambda>author index.
                 findIndex (\<lambda>a. Author_email a = Author_email author) allAuthors = index)
              allAuthors
      in uniqueAuthors)"

definition RemoteBranchData_displayName :: "RemoteBranchData \<Rightarrow> string" where
  "RemoteBranchData_displayName d =
     replace ''refs/heads/'' []
       (replace ''origin/'' []
          (replace ''refs/remotes/'' [] (RemoteBranchData_name d)))"

text \<open>
  The reading of \<open>displayName\<close> in the specification, for comparison: each of the three
  strings is removed when it is a leading prefix of the name at that point.
\<close>

definition strip_prefix :: "string \<Rightarrow> string \<Rightarrow> string" where
  "strip_prefix pat s = (if prefix pat s then drop (length pat) s else s)"

definition displayName_by_prefix :: "string \<Rightarrow> string" where
  "displayName_by_prefix n =
     strip_prefix ''refs/heads/'' (strip_prefix ''origin/'' (strip_prefix ''refs/remotes/'' n))"

subsection \<open>BaseBranch\<close>

datatype Forge = Unknown | GitHub | GitLab | Bitbucket | AzureDevOps

text \<open>
  The descriptor that \<open>GitUrlParse\<close> of the npm package \<open>git-url-parse\<close> returns, with the
  fields the module reads. The parser itself is outside the repository: the functions
  below take it as the parameter \<open>GitUrlParse\<close>, which returns the descriptor or throws.
\<close>

record GitUrl =
  GitUrl_protocol :: string
  GitUrl_resource :: string
  GitUrl_user :: string
  GitUrl_organization :: string
  GitUrl_owner :: string
  GitUrl_name :: string

type_synonym parser = "string \<Rightarrow> js_error + GitUrl"

text \<open>
  The two generator fields hold arrow functions. An arrow function reads
  \<open>this.commitBaseUrl\<close> and \<open>this.repoBaseUrl\<close> when it is called, and keeps the constants
  it captured when it was built; the constructors below name the arrow functions in the
  order of the source, and \<open>call_generateCommitUrl\<close> and \<open>call_generateBranchUrl\<close> run them.
\<close>

datatype CommitUrlGenerator = commits_path | dash_commit_path | commit_path

datatype BranchUrlGenerator =
    fork_compare string string
  | bitbucket_branch
  | azure_branchCompare
  | compare

record BaseBranch =
  BaseBranch_branchName :: string
  BaseBranch_remoteName :: string
  BaseBranch_pushRemoteName :: string
  BaseBranch_baseSha :: string
  BaseBranch_currentSha :: string
  BaseBranch_behind :: int
  BaseBranch_upstreamCommits :: "RemoteCommit list"
  BaseBranch_recentCommits :: "RemoteCommit list"
  BaseBranch_lastFetchedMs :: "int option"
  BaseBranch_forgeType :: "Forge option"
  BaseBranch_remoteUrl :: string
  BaseBranch_repoBaseUrl :: "string option"
  BaseBranch_gitPushRemote :: "GitUrl option"
  BaseBranch_commitBaseUrl :: "string option"
  BaseBranch_actualPushRemoteName :: "string option"
  BaseBranch_generateCommitUrl :: "CommitUrlGenerator option"
  BaseBranch_generateBranchUrl :: "BranchUrlGenerator option"

text \<open>The payload: the stored fields, with the push remote under \<open>pushRemoteUrl\<close>.\<close>

record BaseBranch_raw =
  BaseBranch_raw_branchName :: string
  BaseBranch_raw_remoteName :: string
  BaseBranch_raw_pushRemoteName :: string
  BaseBranch_raw_baseSha :: string
  BaseBranch_raw_currentSha :: string
  BaseBranch_raw_behind :: int
  BaseBranch_raw_upstreamCommits :: "RemoteCommit_raw list"
  BaseBranch_raw_recentCommits :: "RemoteCommit_raw list"
  BaseBranch_raw_lastFetchedMs :: "int option"
  BaseBranch_raw_remoteUrl :: string
  BaseBranch_raw_pushRemoteUrl :: "string option"

text \<open>
  The \<open>@Transform\<close> of \<open>gitPushRemote\<close>: \<open>value ? GitUrlParse(value) : undefined\<close>. It runs
  whether or not the payload has the key; a missing key gives the value \<open>undefined\<close>.
  Nothing catches what \<open>GitUrlParse\<close> throws.
\<close>

definition gitPushRemote_Transform :: "parser \<Rightarrow> string option \<Rightarrow> js_error + GitUrl option" where
  "gitPushRemote_Transform GitUrlParse v =
     (case v of
        None \<Rightarrow> Inr None
      | Some u \<Rightarrow>
          if truthy u
          then (case GitUrlParse u of Inl e \<Rightarrow> Inl e | Inr g \<Rightarrow> Inr (Some g))
          else Inr None)"

text \<open>
  Deserialization of a \<open>BaseBranch\<close>: the two commit arrays become \<open>RemoteCommit\<close>s, the
  push remote is transformed, and the fields that \<open>afterTransform\<close> fills start undefined.
\<close>

definition plainToInstance_BaseBranch :: "parser \<Rightarrow> BaseBranch_raw \<Rightarrow> js_error + BaseBranch" where
  "plainToInstance_BaseBranch GitUrlParse p =
     (case gitPushRemote_Transform GitUrlParse (BaseBranch_raw_pushRemoteUrl p) of
        Inl e \<Rightarrow> Inl e
      | Inr g \<Rightarrow>
          Inr \<lparr>BaseBranch_branchName = BaseBranch_raw_branchName p,
               BaseBranch_remoteName = BaseBranch_raw_remoteName p,
               BaseBranch_pushRemoteName = BaseBranch_raw_pushRemoteName p,
               BaseBranch_baseSha = BaseBranch_raw_baseSha p,
               BaseBranch_currentSha = BaseBranch_raw_currentSha p,
               BaseBranch_behind = BaseBranch_raw_behind p,
               BaseBranch_upstreamCommits =
                 map plainToInstance_RemoteCommit (BaseBranch_raw_upstreamCommits p),
               BaseBranch_recentCommits =
                 map plainToInstance_RemoteCommit (BaseBranch_raw_recentCommits p),
               BaseBranch_lastFetchedMs = BaseBranch_raw_lastFetchedMs p,
               BaseBranch_forgeType = None,
               BaseBranch_remoteUrl = BaseBranch_raw_remoteUrl p,
               BaseBranch_repoBaseUrl = None,
               BaseBranch_gitPushRemote = g,
               BaseBranch_commitBaseUrl = None,
               BaseBranch_actualPushRemoteName = None,
               BaseBranch_generateCommitUrl = None,
               BaseBranch_generateBranchUrl = None\<rparr>)"

definition getForgeType :: "string \<Rightarrow> Forge" where
  "getForgeType repoBaseUrl =
     (if includes_str repoBaseUrl ''github.com'' then GitHub
      else if includes_str repoBaseUrl ''gitlab.com'' then GitLab
      else if includes_str repoBaseUrl ''bitbucket.org'' then Bitbucket
      else if includes_str repoBaseUrl ''dev.azure.com'' then AzureDevOps
      else Unknown)"

text \<open>
  The first \<open>if (this.gitPushRemote)\<close> block of \<open>afterTransform\<close>. \<open>ipv4_test\<close> stands for
  \<open>ipv4Regex.test\<close>; the regular expression is defined in \<open>$lib/utils/url\<close>, which is not
  among the sources, so it is a parameter.
\<close>

definition afterTransform_commitUrl :: "(string \<Rightarrow> bool) \<Rightarrow> BaseBranch \<Rightarrow> BaseBranch" where
  "afterTransform_commitUrl ipv4_test b =
     (case BaseBranch_gitPushRemote b of
        None \<Rightarrow> b
      | Some g \<Rightarrow>
          let organization = GitUrl_organization g;
              owner = GitUrl_owner g;
              name = GitUrl_name g;
              protocol = GitUrl_protocol g;
              resource0 = GitUrl_resource g;
              webProtocol = (if ipv4_test resource0 then ''http'' else ''https'');
              resource = (if protocol = ''ssh'' \<and> prefix ''ssh.'' resource0
                          then drop 4 resource0 else resource0);
              b1 = (if BaseBranch_forgeType b = Some AzureDevOps
                    then b\<lparr>BaseBranch_commitBaseUrl :=
                           Some (webProtocol @ ''://'' @ resource @ ''/'' @ organization @ ''/''
                                 @ owner @ ''/_git/'' @ name)\<rparr>
                    else b\<lparr>BaseBranch_commitBaseUrl :=
                           Some (webProtocol @ ''://'' @ resource @ ''/'' @ owner @ ''/''
                                 @ name)\<rparr>)
          in (case BaseBranch_forgeType b1 of
                Some Bitbucket \<Rightarrow> b1\<lparr>BaseBranch_generateCommitUrl := Some commits_path\<rparr>
              | Some GitLab \<Rightarrow> b1\<lparr>BaseBranch_generateCommitUrl := Some dash_commit_path\<rparr>
              | _ \<Rightarrow> b1\<lparr>BaseBranch_generateCommitUrl := Some commit_path\<rparr>))"

text \<open>The second \<open>if (this.gitPushRemote)\<close> block.\<close>

definition afterTransform_branchUrl :: "BaseBranch \<Rightarrow> BaseBranch" where
  "afterTransform_branchUrl b =
     (case BaseBranch_gitPushRemote b of
        None \<Rightarrow> b
      | Some g \<Rightarrow>
          let b1 = (if truthy (BaseBranch_pushRemoteName b) \<and> BaseBranch_forgeType b = Some GitHub
                    then b\<lparr>BaseBranch_generateBranchUrl :=
                           Some (fork_compare (GitUrl_user g) (GitUrl_name g))\<rparr>
                    else b)
          in if BaseBranch_generateBranchUrl b1 = None
             then (case BaseBranch_forgeType b1 of
                     Some Bitbucket \<Rightarrow> b1\<lparr>BaseBranch_generateBranchUrl := Some bitbucket_branch\<rparr>
                   | Some AzureDevOps \<Rightarrow>
                       b1\<lparr>BaseBranch_generateBranchUrl := Some azure_branchCompare\<rparr>
                   | _ \<Rightarrow> b1\<lparr>BaseBranch_generateBranchUrl := Some compare\<rparr>)
             else b1)"

text \<open>\<open>afterTransform\<close> throws when \<open>GitUrlParse(this.remoteUrl)\<close> throws.\<close>

definition afterTransform :: "(string \<Rightarrow> bool) \<Rightarrow> parser \<Rightarrow> BaseBranch \<Rightarrow> js_error + BaseBranch" where
  "afterTransform ipv4_test GitUrlParse b =
     (case GitUrlParse (BaseBranch_remoteUrl b) of
        Inl e \<Rightarrow> Inl e
      | Inr gitRemote \<Rightarrow>
          let remoteUrlProtocol = (if ipv4_test (GitUrl_resource gitRemote) then ''http'' else ''https'');
              b1 = b\<lparr>BaseBranch_repoBaseUrl :=
                      Some (remoteUrlProtocol @ ''://'' @ GitUrl_resource gitRemote @ ''/''
                            @ GitUrl_owner gitRemote @ ''/'' @ GitUrl_name gitRemote)\<rparr>;
              b2 = b1\<lparr>BaseBranch_forgeType := Some (getForgeType (GitUrl_resource gitRemote))\<rparr>;
              b3 = b2\<lparr>BaseBranch_actualPushRemoteName :=
                       Some (if truthy (BaseBranch_pushRemoteName b2)
                             then BaseBranch_pushRemoteName b2
                             else BaseBranch_remoteName b2)\<rparr>
          in Inr (afterTransform_branchUrl (afterTransform_commitUrl ipv4_test b3)))"

fun call_generateCommitUrl :: "BaseBranch \<Rightarrow> CommitUrlGenerator \<Rightarrow> string \<Rightarrow> string" where
  "call_generateCommitUrl b commits_path commitId =
     template (BaseBranch_commitBaseUrl b) @ ''/commits/'' @ commitId"
| "call_generateCommitUrl b dash_commit_path commitId =
     template (BaseBranch_commitBaseUrl b) @ ''/-/commit/'' @ commitId"
| "call_generateCommitUrl b commit_path commitId =
     template (BaseBranch_commitBaseUrl b) @ ''/commit/'' @ commitId"

fun call_generateBranchUrl :: "BaseBranch \<Rightarrow> BranchUrlGenerator \<Rightarrow> string \<Rightarrow> string \<Rightarrow> string" where
  "call_generateBranchUrl b (fork_compare pushUsername pushRepoName) baseBranchName branchName =
     template (BaseBranch_repoBaseUrl b) @ ''/compare/'' @ baseBranchName @ ''...''
       @ pushUsername @ '':'' @ pushRepoName @ '':'' @ branchName"
| "call_generateBranchUrl b bitbucket_branch baseBranchName branchName =
     template (BaseBranch_repoBaseUrl b) @ ''/branch/'' @ branchName @ ''?dest=''
       @ baseBranchName"
| "call_generateBranchUrl b azure_branchCompare baseBranchName branchName =
     template (BaseBranch_commitBaseUrl b) @ ''/branchCompare?baseVersion=GB''
       @ baseBranchName @ ''&targetVersion=GB'' @ branchName"
| "call_generateBranchUrl b compare baseBranchName branchName =
     template (BaseBranch_repoBaseUrl b) @ ''/compare/'' @ baseBranchName @ ''...''
       @ branchName"

definition commitUrl :: "BaseBranch \<Rightarrow> string \<Rightarrow> string option" where
  "commitUrl b commitId =
     (case BaseBranch_generateCommitUrl b of
        Some gen \<Rightarrow> Some (call_generateCommitUrl b gen commitId)
      | None \<Rightarrow> None)"

text \<open>
  \<open>branchUrl\<close>: \<open>this.branchName.split('/')[1]\<close> may be \<open>undefined\<close>, which the generator's
  template literal prints as such.
\<close>

definition branchUrl :: "BaseBranch \<Rightarrow> string option \<Rightarrow> string option" where
  "branchUrl b upstreamBranchName =
     (case upstreamBranchName of
        None \<Rightarrow> None
      | Some u \<Rightarrow>
          if \<not> truthy u \<or> BaseBranch_gitPushRemote b = None
          then None
          else (case BaseBranch_generateBranchUrl b of
                  None \<Rightarrow> None
                | Some gen \<Rightarrow>
                    let baseBranchName =
                          template (at_index (split CHR ''/'' (BaseBranch_branchName b)) 1);
                        branchName = join ''/'' (drop 3 (split CHR ''/'' u))
                    in Some (call_generateBranchUrl b gen baseBranchName branchName)))"

subsection \<open>Sample values\<close>

definition sample_author :: Author where
  "sample_author =
     \<lparr>Author_email = Some ''a@example.com'', Author_name = Some ''A'',
      Author_gravatarUrl = None, Author_isBot = Some False\<rparr>"

definition sample_remote_commit :: RemoteCommit where
  "sample_remote_commit =
     \<lparr>RemoteCommit_id = ''r1'', RemoteCommit_author = sample_author,
      RemoteCommit_description = ''pushed'', RemoteCommit_createdAt = Date 1700000000000,
      RemoteCommit_changeId = ''ch1'', RemoteCommit_isSigned = False,
      RemoteCommit_parentIds = []\<rparr>"

definition sample_commit :: Commit where
  "sample_commit =
     \<lparr>Commit_id = ''c1'', Commit_author = sample_author, Commit_description = ''work'',
      Commit_createdAt = Date 1700000000000, Commit_isRemote = True,
      Commit_isIntegrated = False, Commit_parentIds = [], Commit_branchId = ''b1'',
      Commit_changeId = ''ch1'', Commit_isSigned = False,
      Commit_relatedTo = Some sample_remote_commit\<rparr>"

definition sample_remote_commit_raw :: RemoteCommit_raw where
  "sample_remote_commit_raw =
     \<lparr>RemoteCommit_raw_id = ''r1'', RemoteCommit_raw_author = sample_author,
      RemoteCommit_raw_description = ''pushed'', RemoteCommit_raw_createdAt = 1700000000,
      RemoteCommit_raw_changeId = ''ch1'', RemoteCommit_raw_isSigned = False,
      RemoteCommit_raw_parentIds = []\<rparr>"

definition sample_commit_raw :: Commit_raw where
  "sample_commit_raw =
     \<lparr>Commit_raw_id = ''c1'', Commit_raw_author = sample_author,
      Commit_raw_description = ''work'', Commit_raw_createdAt = 1700000000000,
      Commit_raw_isRemote = True, Commit_raw_isIntegrated = False,
      Commit_raw_parentIds = [], Commit_raw_branchId = ''b1'',
      Commit_raw_changeId = ''ch1'', Commit_raw_isSigned = False\<rparr>"

definition author_of :: "string \<Rightarrow> string \<Rightarrow> Author" where
  "author_of e n =
     \<lparr>Author_email = Some e, Author_name = Some n, Author_gravatarUrl = None,
      Author_isBot = Some False\<rparr>"

definition commit_by :: "string \<Rightarrow> Author \<Rightarrow> int \<Rightarrow> RemoteCommit" where
  "commit_by i a t =
     \<lparr>RemoteCommit_id = i, RemoteCommit_author = a, RemoteCommit_description = ''d'',
      RemoteCommit_createdAt = Date t, RemoteCommit_changeId = [],
      RemoteCommit_isSigned = False, RemoteCommit_parentIds = []\<rparr>"

text \<open>
  A remote branch of three commits, newest first: two authors share an email under
  different names, the third has another email.
\<close>

definition sample_branch_data :: RemoteBranchData where
  "sample_branch_data =
     \<lparr>RemoteBranchData_sha = ''s'', RemoteBranchData_name = ''refs/remotes/origin/feature'',
      RemoteBranchData_upstream = None, RemoteBranchData_behind = 0,
      RemoteBranchData_commits =
        [commit_by ''r3'' (author_of ''x@example.com'' ''X'') 3000,
         commit_by ''r2'' (author_of ''y@example.com'' ''Y'') 2000,
         commit_by ''r1'' (author_of ''x@example.com'' ''X again'') 1000],
      RemoteBranchData_isMergeable = Some True, RemoteBranchData_forkPoint = None\<rparr>"

text \<open>
  An instance of the parser parameter for evaluation at concrete inputs. It returns the
  descriptor that \<open>git-url-parse\<close> documents for one SSH remote, and throws on every other
  string, with the message of the package for a blank one.
\<close>

definition sample_GitUrl :: GitUrl where
  "sample_GitUrl =
     \<lparr>GitUrl_protocol = ''ssh'', GitUrl_resource = ''github.com'', GitUrl_user = ''git'',
      GitUrl_organization = ''owner'', GitUrl_owner = ''owner'', GitUrl_name = ''repo''\<rparr>"

definition sample_GitUrlParse :: parser where
  "sample_GitUrlParse url =
     (if url = ''git@github.com:owner/repo.git'' then Inr sample_GitUrl
      else if dropWhile (\<lambda>c. c = CHR '' '') url = [] then Inl (Error ''Invalid url.'')
      else Inl (Error ''URL parsing failed.''))"

text \<open>
  Modelled from the spec: \<open>ipv4Regex\<close> of \<open>$lib/utils/url\<close> is not among the sources; the
  specification says the protocol is \<open>http\<close> when the host is a literal IPv4 address. The
  theorems take the test as a parameter; this instance serves evaluation only.
\<close>

definition ipv4_literal :: "string \<Rightarrow> bool" where
  "ipv4_literal s =
     (let parts = split CHR ''.'' s
      in length parts = 4 \<and>
         list_all (\<lambda>w. w \<noteq> [] \<and> list_all (\<lambda>c. c \<in> set ''0123456789'') w) parts)"

definition sample_base_branch_raw :: BaseBranch_raw where
  "sample_base_branch_raw =
     \<lparr>BaseBranch_raw_branchName = ''origin/master'', BaseBranch_raw_remoteName = ''origin'',
      BaseBranch_raw_pushRemoteName = [], BaseBranch_raw_baseSha = ''b0'',
      BaseBranch_raw_currentSha = ''b1'', BaseBranch_raw_behind = 0,
      BaseBranch_raw_upstreamCommits = [], BaseBranch_raw_recentCommits = [],
      BaseBranch_raw_lastFetchedMs = None,
      BaseBranch_raw_remoteUrl = ''git@github.com:owner/repo.git'',
      BaseBranch_raw_pushRemoteUrl = None\<rparr>"

text \<open>The instance that deserialization builds from \<open>sample_base_branch_raw\<close>.\<close>

definition sample_base_branch :: BaseBranch where
  "sample_base_branch =
     \<lparr>BaseBranch_branchName = ''origin/master'', BaseBranch_remoteName = ''origin'',
      BaseBranch_pushRemoteName = [], BaseBranch_baseSha = ''b0'',
      BaseBranch_currentSha = ''b1'', BaseBranch_behind = 0,
      BaseBranch_upstreamCommits = [], BaseBranch_recentCommits = [],
      BaseBranch_lastFetchedMs = None, BaseBranch_forgeType = None,
      BaseBranch_remoteUrl = ''git@github.com:owner/repo.git'',
      BaseBranch_repoBaseUrl = None, BaseBranch_gitPushRemote = None,
      BaseBranch_commitBaseUrl = None, BaseBranch_actualPushRemoteName = None,
      BaseBranch_generateCommitUrl = None, BaseBranch_generateBranchUrl = None\<rparr>"

section \<open>Commit status and commit comparison\<close>

text \<open>
  Claim C1. The status of a \<open>Commit\<close> follows the precedence integrated, then
  localAndRemote, then local: an integrated commit has status \<open>integrated\<close> whatever its
  other fields are; otherwise a remote commit whose \<open>relatedTo\<close> is undefined or has the
  commit's own id has status \<open>localAndRemote\<close>; otherwise the status is \<open>local\<close>. The
  status of a \<open>RemoteCommit\<close> is always \<open>remote\<close>.
\<close>

theorem status_precedence:
  "Commit_status c =
     (if Commit_isIntegrated c then integrated
      else if Commit_isRemote c \<and>
              (Commit_relatedTo c = None \<or>
               (\<exists>r. Commit_relatedTo c = Some r \<and> RemoteCommit_id r = Commit_id c))
           then localAndRemote
      else local)
   \<and> RemoteCommit_status r = remote"
  by (auto simp: Commit_status_def RemoteCommit_status_def split: option.splits)

theorem status_precedence_witness:
  "Commit_status sample_commit = local
   \<and> Commit_status (sample_commit\<lparr>Commit_relatedTo := None\<rparr>) = localAndRemote
   \<and> Commit_status (sample_commit\<lparr>Commit_id := ''r1''\<rparr>) = localAndRemote
   \<and> Commit_status (sample_commit\<lparr>Commit_isIntegrated := True\<rparr>) = integrated
   \<and> RemoteCommit_status sample_remote_commit = remote"
  using status_precedence [of sample_commit sample_remote_commit]
    status_precedence [of "sample_commit\<lparr>Commit_relatedTo := None\<rparr>" sample_remote_commit]
    status_precedence [of "sample_commit\<lparr>Commit_id := ''r1''\<rparr>" sample_remote_commit]
    status_precedence [of "sample_commit\<lparr>Commit_isIntegrated := True\<rparr>" sample_remote_commit]
  by (simp add: sample_commit_def sample_remote_commit_def)

text \<open>
  Claim C2. \<open>commitCompare\<close> is symmetric and reflexive on commits of either class, and it
  returns true exactly when the ids are equal or both \<open>changeId\<close>s are non-empty and equal.
\<close>

theorem commitCompare_spec:
  "commitCompare a b = commitCompare b a
   \<and> commitCompare a a
   \<and> (commitCompare a b \<longleftrightarrow>
        AnyCommit_id a = AnyCommit_id b
        \<or> (AnyCommit_changeId a \<noteq> [] \<and> AnyCommit_changeId b \<noteq> []
           \<and> AnyCommit_changeId a = AnyCommit_changeId b))"
  by (auto simp: commitCompare_def truthy_def)

text \<open>
  Claim C10. A status of \<open>local\<close> does not imply \<open>isLocal\<close>: a commit that is remote, not
  integrated, and related to a remote commit with another id has status \<open>local\<close> while
  \<open>isLocal\<close> is false; such a commit exists.
\<close>

theorem status_local_not_isLocal:
  "(Commit_isRemote c \<and> \<not> Commit_isIntegrated c \<and> Commit_relatedTo c = Some r
      \<and> RemoteCommit_id r \<noteq> Commit_id c
    \<longrightarrow> Commit_status c = local \<and> \<not> Commit_isLocal c)
   \<and> (\<exists>c'. Commit_status c' = local \<and> \<not> Commit_isLocal c')"
proof
  show "Commit_isRemote c \<and> \<not> Commit_isIntegrated c \<and> Commit_relatedTo c = Some r
      \<and> RemoteCommit_id r \<noteq> Commit_id c
    \<longrightarrow> Commit_status c = local \<and> \<not> Commit_isLocal c"
    by (auto simp: Commit_status_def Commit_isLocal_def)
  have "Commit_status sample_commit = local \<and> \<not> Commit_isLocal sample_commit"
    by (simp add: Commit_status_def Commit_isLocal_def sample_commit_def
        sample_remote_commit_def)
  then show "\<exists>c'. Commit_status c' = local \<and> \<not> Commit_isLocal c'"
    by blast
qed

theorem status_local_not_isLocal_witness:
  "Commit_isRemote sample_commit \<and> \<not> Commit_isIntegrated sample_commit
   \<and> Commit_relatedTo sample_commit = Some sample_remote_commit
   \<and> RemoteCommit_id sample_remote_commit \<noteq> Commit_id sample_commit
   \<and> Commit_status sample_commit = local \<and> \<not> Commit_isLocal sample_commit"
  using status_local_not_isLocal [of sample_commit sample_remote_commit]
  by (simp add: sample_commit_def sample_remote_commit_def)

section \<open>Deserialization of timestamps\<close>

text \<open>
  Claim C3. Deserialization converts the raw \<open>createdAt\<close> differently for the two
  classes: a \<open>RemoteCommit\<close> gets the date of the raw value times 1000 (seconds to
  milliseconds), a \<open>Commit\<close> the date of the raw value as it is. So a remote commit with
  raw value \<open>v\<close> gets the date of a commit with raw value \<open>v * 1000\<close>.
\<close>

theorem createdAt_units:
  "RemoteCommit_createdAt (plainToInstance_RemoteCommit p) =
     new_Date (RemoteCommit_raw_createdAt p * 1000)
   \<and> Commit_createdAt (plainToInstance_Commit q) = new_Date (Commit_raw_createdAt q)
   \<and> RemoteCommit_createdAt (plainToInstance_RemoteCommit p) =
       Commit_createdAt
         (plainToInstance_Commit (q\<lparr>Commit_raw_createdAt := RemoteCommit_raw_createdAt p * 1000\<rparr>))"
  by (simp add: plainToInstance_RemoteCommit_def plainToInstance_Commit_def
      RemoteCommit_createdAt_Transform_def Commit_createdAt_Transform_def)

text \<open>
  The same instant, sent as seconds to one class and as milliseconds to the other, and
  what the \<open>Commit\<close> conversion makes of a value in seconds.
\<close>

lemma createdAt_units_sample:
  "RemoteCommit_createdAt (plainToInstance_RemoteCommit sample_remote_commit_raw) =
     Date 1700000000000
   \<and> Commit_createdAt (plainToInstance_Commit sample_commit_raw) = Date 1700000000000
   \<and> Commit_createdAt
       (plainToInstance_Commit (sample_commit_raw\<lparr>Commit_raw_createdAt := 1700000000\<rparr>)) =
       Date 1700000000"
  by (simp add: plainToInstance_RemoteCommit_def plainToInstance_Commit_def
      RemoteCommit_createdAt_Transform_def Commit_createdAt_Transform_def new_Date_def
      sample_remote_commit_raw_def sample_commit_raw_def)

section \<open>RemoteBranchData\<close>

subsection \<open>Strings\<close>

lemma includes_str_sublist: "includes_str s pat \<longleftrightarrow> sublist pat s"
  by (induction s) (auto simp: sublist_Cons_right)

lemma replace_prefix: "prefix pat s \<Longrightarrow> replace pat [] s = drop (length pat) s"
  by (cases s) auto

lemma replace_absent: "\<not> includes_str s pat \<Longrightarrow> replace pat rep s = s"
  by (induction s) auto

lemma replace_strip_prefix:
  "prefix pat s \<or> \<not> includes_str s pat \<Longrightarrow> replace pat [] s = strip_prefix pat s"
  by (cases "prefix pat s") (auto simp: strip_prefix_def replace_prefix replace_absent)

text \<open>
  What \<open>replace\<close> does in general: where the pattern occurs, its first occurrence gives
  way to the replacement.
\<close>

lemma replace_first_occurrence:
  "includes_str s pat \<Longrightarrow>
     \<exists>u v. s = u @ pat @ v \<and> replace pat rep s = u @ rep @ v
       \<and> (\<forall>u' v'. s = u' @ pat @ v' \<longrightarrow> length u \<le> length u')"
proof (induction s)
  case Nil
  then show ?case by simp
next
  case (Cons c cs)
  show ?case
  proof (cases "prefix pat (c # cs)")
    case True
    then obtain v where v: "c # cs = pat @ v" by (auto simp: prefix_def)
    then have "drop (length pat) (c # cs) = v" by simp
    then have "replace pat rep (c # cs) = rep @ v" using True by simp
    then have "c # cs = [] @ pat @ v \<and> replace pat rep (c # cs) = [] @ rep @ v
       \<and> (\<forall>u' v'. c # cs = u' @ pat @ v' \<longrightarrow> length ([]::string) \<le> length u')"
      using v by simp
    then show ?thesis by blast
  next
    case False
    then have "includes_str cs pat" using Cons.prems by simp
    from Cons.IH [OF this] obtain u v where
      uv: "cs = u @ pat @ v" "replace pat rep cs = u @ rep @ v"
      "\<forall>u' v'. cs = u' @ pat @ v' \<longrightarrow> length u \<le> length u'"
      by blast
    have "\<forall>u' v'. c # cs = u' @ pat @ v' \<longrightarrow> length (c # u) \<le> length u'"
    proof (intro allI impI)
      fix u' v' assume e: "c # cs = u' @ pat @ v'"
      show "length (c # u) \<le> length u'"
      proof (cases u')
        case Nil
        then have "prefix pat (c # cs)" using e by (simp add: prefix_def)
        then show ?thesis using False by simp
      next
        case (Cons a u'')
        then have "cs = u'' @ pat @ v'" using e by simp
        then have "length u \<le> length u''" using uv(3) by blast
        then show ?thesis using Cons by simp
      qed
    qed
    then have "c # cs = (c # u) @ pat @ v \<and> replace pat rep (c # cs) = (c # u) @ rep @ v
       \<and> (\<forall>u' v'. c # cs = u' @ pat @ v' \<longrightarrow> length (c # u) \<le> length u')"
      using uv False by simp
    then show ?thesis by blast
  qed
qed

text \<open>
  On a name in which each of the three strings is, at its turn, a leading prefix of the
  string reached so far or does not occur in it, the getter agrees with prefix stripping.
\<close>

lemma displayName_agrees:
  assumes "prefix ''refs/remotes/'' (RemoteBranchData_name d)
           \<or> \<not> includes_str (RemoteBranchData_name d) ''refs/remotes/''"
    and "prefix ''origin/'' (strip_prefix ''refs/remotes/'' (RemoteBranchData_name d))
         \<or> \<not> includes_str (strip_prefix ''refs/remotes/'' (RemoteBranchData_name d)) ''origin/''"
    and "prefix ''refs/heads/''
           (strip_prefix ''origin/'' (strip_prefix ''refs/remotes/'' (RemoteBranchData_name d)))
         \<or> \<not> includes_str
               (strip_prefix ''origin/'' (strip_prefix ''refs/remotes/'' (RemoteBranchData_name d)))
               ''refs/heads/''"
  shows "RemoteBranchData_displayName d = displayName_by_prefix (RemoteBranchData_name d)"
  using assms
  by (simp add: RemoteBranchData_displayName_def displayName_by_prefix_def replace_strip_prefix)

text \<open>
  Claim C7. \<open>displayName\<close> is the name with the prefixes \<open>refs/remotes/\<close>, \<open>origin/\<close> and
  \<open>refs/heads/\<close> stripped in that fixed order, each removed as a leading prefix. The getter
  attempts this with \<open>replace\<close>, which is not anchored at the start and removes the first
  occurrence wherever it is. For the branch \<open>foo\<close> of a remote called \<open>my-origin\<close>, the
  name \<open>refs/remotes/my-origin/foo\<close>, the getter returns \<open>my-foo\<close>, where stripping the
  leading prefixes gives \<open>my-origin/foo\<close>: the code departs from the claim.
\<close>

theorem displayName_inner_occurrence:
  "RemoteBranchData_displayName
     (sample_branch_data\<lparr>RemoteBranchData_name := ''refs/remotes/my-origin/foo''\<rparr>) = ''my-foo''
   \<and> displayName_by_prefix ''refs/remotes/my-origin/foo'' = ''my-origin/foo''
   \<and> RemoteBranchData_displayName
       (sample_branch_data\<lparr>RemoteBranchData_name := ''refs/remotes/my-origin/foo''\<rparr>) \<noteq>
     displayName_by_prefix
       (RemoteBranchData_name
          (sample_branch_data\<lparr>RemoteBranchData_name := ''refs/remotes/my-origin/foo''\<rparr>))"
  by (simp add: RemoteBranchData_displayName_def displayName_by_prefix_def strip_prefix_def)

subsection \<open>Authors\<close>

lemma findIndex_from_takeWhile:
  "findIndex_from P xs k =
     (if \<exists>x\<in>set xs. P x then k + int (length (takeWhile (\<lambda>x. \<not> P x) xs)) else - 1)"
  by (induction xs arbitrary: k) auto

lemma filter_from_nths:
  "filter_from f xs k =
     map (\<lambda>i. xs ! i) (filter (\<lambda>i. f (xs ! i) (k + int i)) [0..<length xs])"
proof (induction xs arbitrary: k)
  case Nil
  then show ?case by simp
next
  case (Cons x xs)
  have upt: "[0..<length (x # xs)] = 0 # map Suc [0..<length xs]"
    by (simp add: upt_conv_Cons map_Suc_upt del: upt_Suc)
  show ?case
    unfolding upt
    by (simp add: Cons.IH filter_map comp_def add.commute add.left_commute)
qed

lemma length_takeWhile_eq_iff:
  assumes "i < length xs" and "\<not> Q (xs ! i)"
  shows "length (takeWhile Q xs) = i \<longleftrightarrow> (\<forall>j<i. Q (xs ! j))"
proof
  assume len: "length (takeWhile Q xs) = i"
  show "\<forall>j<i. Q (xs ! j)"
  proof (intro allI impI)
    fix j assume "j < i"
    then have "j < length (takeWhile Q xs)" using len by simp
    then have "takeWhile Q xs ! j \<in> set (takeWhile Q xs)" and "takeWhile Q xs ! j = xs ! j"
      by (rule nth_mem, rule takeWhile_nth)
    then show "Q (xs ! j)" by (metis set_takeWhileD)
  qed
next
  assume "\<forall>j<i. Q (xs ! j)"
  then have "takeWhile Q xs = take i xs"
    using assms by (intro takeWhile_eq_take_P_nth) auto
  then show "length (takeWhile Q xs) = i" using assms by simp
qed

text \<open>\<open>findIndex\<close> returns a position that satisfies \<open>P\<close> exactly when none before it does.\<close>

lemma findIndex_first:
  assumes "i < length xs" and "P (xs ! i)"
  shows "findIndex P xs = int i \<longleftrightarrow> (\<forall>j<i. \<not> P (xs ! j))"
proof -
  have "\<exists>x\<in>set xs. P x" using assms nth_mem by blast
  then have "findIndex P xs = int (length (takeWhile (\<lambda>x. \<not> P x) xs))"
    by (simp add: findIndex_def findIndex_from_takeWhile)
  then show ?thesis
    using length_takeWhile_eq_iff [of i xs "\<lambda>x. \<not> P x"] assms by simp
qed

lemma filter_indexed_first:
  "filter_indexed (\<lambda>x index. findIndex (\<lambda>a. key a = key x) xs = index) xs =
     map (\<lambda>i. xs ! i) (filter (\<lambda>i. \<forall>j<i. key (xs ! j) \<noteq> key (xs ! i)) [0..<length xs])"
proof -
  have "filter (\<lambda>i. findIndex (\<lambda>a. key a = key (xs ! i)) xs = 0 + int i) [0..<length xs]
      = filter (\<lambda>i. \<forall>j<i. key (xs ! j) \<noteq> key (xs ! i)) [0..<length xs]"
    by (rule filter_cong) (simp_all add: findIndex_first)
  then show ?thesis
    by (simp add: filter_indexed_def filter_from_nths)
qed

lemma first_positions_distinct:
  "distinct (map key (map (\<lambda>i. xs ! i)
      (filter (\<lambda>i. \<forall>j<i. key (xs ! j) \<noteq> key (xs ! i)) [0..<length xs])))"
proof -
  let ?is = "filter (\<lambda>i. \<forall>j<i. key (xs ! j) \<noteq> key (xs ! i)) [0..<length xs]"
  have "inj_on (\<lambda>i. key (xs ! i)) (set ?is)"
  proof (rule inj_onI)
    fix i i' assume i: "i \<in> set ?is" and i': "i' \<in> set ?is"
      and eq: "key (xs ! i) = key (xs ! i')"
    show "i = i'"
    proof (rule ccontr)
      assume "i \<noteq> i'"
      then consider "i < i'" | "i' < i" by linarith
      then show False using i i' eq by cases auto
    qed
  qed
  moreover have "distinct ?is" by simp
  ultimately have "distinct (map (\<lambda>i. key (xs ! i)) ?is)"
    by (simp add: distinct_map)
  then show ?thesis by (simp add: comp_def)
qed

lemma first_positions_set:
  "set (map key (map (\<lambda>i. xs ! i)
      (filter (\<lambda>i. \<forall>j<i. key (xs ! j) \<noteq> key (xs ! i)) [0..<length xs]))) = set (map key xs)"
proof
  show "set (map key (map (\<lambda>i. xs ! i)
      (filter (\<lambda>i. \<forall>j<i. key (xs ! j) \<noteq> key (xs ! i)) [0..<length xs]))) \<subseteq> set (map key xs)"
    by auto
  show "set (map key xs) \<subseteq> set (map key (map (\<lambda>i. xs ! i)
      (filter (\<lambda>i. \<forall>j<i. key (xs ! j) \<noteq> key (xs ! i)) [0..<length xs])))"
  proof
    fix e assume "e \<in> set (map key xs)"
    then obtain n where n: "n < length xs" "key (xs ! n) = e"
      by (auto simp: in_set_conv_nth)
    define m where "m = (LEAST i. i < length xs \<and> key (xs ! i) = e)"
    have m: "m < length xs \<and> key (xs ! m) = e"
      unfolding m_def using n by (intro LeastI [of "\<lambda>i. i < length xs \<and> key (xs ! i) = e" n]) simp
    have least: "\<forall>j<m. key (xs ! j) \<noteq> e"
    proof (intro allI impI)
      fix j assume "j < m"
      then have "\<not> (j < length xs \<and> key (xs ! j) = e)"
        unfolding m_def using not_less_Least by blast
      then show "key (xs ! j) \<noteq> e" using \<open>j < m\<close> m by auto
    qed
    have "m \<in> set (filter (\<lambda>i. \<forall>j<i. key (xs ! j) \<noteq> key (xs ! i)) [0..<length xs])"
      using m least by simp
    then show "e \<in> set (map key (map (\<lambda>i. xs ! i)
      (filter (\<lambda>i. \<forall>j<i. key (xs ! j) \<noteq> key (xs ! i)) [0..<length xs])))"
      using m by force
  qed
qed

lemma find_first_position:
  assumes "i < length xs" and "\<forall>j<i. key (xs ! j) \<noteq> key (xs ! i)"
  shows "find (\<lambda>b. key b = key (xs ! i)) xs = Some (xs ! i)"
  using assms by (auto simp: find_Some_iff)

text \<open>
  Claim C8. The authors of a \<open>RemoteBranchData\<close> are the authors of its commits at the
  positions where an email occurs for the first time, in the order of the commits (newest
  first): every email of a commit occurs exactly once among them, and the author kept for
  an email is the author of the first commit that bears it.
\<close>

theorem authors_first_occurrence:
  "(let allAuthors = map RemoteCommit_author (RemoteBranchData_commits d)
    in RemoteBranchData_authors d =
         map (\<lambda>i. allAuthors ! i)
           (filter (\<lambda>i. \<forall>j<i. Author_email (allAuthors ! j) \<noteq> Author_email (allAuthors ! i))
              [0..<length allAuthors])
       \<and> distinct (map Author_email (RemoteBranchData_authors d))
       \<and> set (map Author_email (RemoteBranchData_authors d)) = set (map Author_email allAuthors)
       \<and> (\<forall>a\<in>set (RemoteBranchData_authors d).
             find (\<lambda>b. Author_email b = Author_email a) allAuthors = Some a))"
proof -
  define allAuthors where "allAuthors = map RemoteCommit_author (RemoteBranchData_commits d)"
  have eq: "RemoteBranchData_authors d =
         map (\<lambda>i. allAuthors ! i)
           (filter (\<lambda>i. \<forall>j<i. Author_email (allAuthors ! j) \<noteq> Author_email (allAuthors ! i))
              [0..<length allAuthors])"
    unfolding RemoteBranchData_authors_def Let_def allAuthors_def [symmetric]
    by (rule filter_indexed_first)
  have d: "distinct (map Author_email (RemoteBranchData_authors d))"
    unfolding eq by (rule first_positions_distinct)
  have s: "set (map Author_email (RemoteBranchData_authors d)) = set (map Author_email allAuthors)"
    unfolding eq by (rule first_positions_set)
  have f: "\<forall>a\<in>set (RemoteBranchData_authors d).
             find (\<lambda>b. Author_email b = Author_email a) allAuthors = Some a"
    unfolding eq using find_first_position [of _ allAuthors Author_email] by auto
  show ?thesis
    unfolding Let_def allAuthors_def [symmetric] using eq d s f by blast
qed

theorem authors_first_occurrence_witness:
  "RemoteBranchData_authors sample_branch_data =
     [author_of ''x@example.com'' ''X'', author_of ''y@example.com'' ''Y'']
   \<and> distinct (map Author_email (RemoteBranchData_authors sample_branch_data))
   \<and> set (map Author_email (RemoteBranchData_authors sample_branch_data)) =
       {Some ''x@example.com'', Some ''y@example.com''}"
proof -
  have a: "RemoteBranchData_authors sample_branch_data =
     [author_of ''x@example.com'' ''X'', author_of ''y@example.com'' ''Y'']"
    by (simp add: RemoteBranchData_authors_def sample_branch_data_def filter_indexed_def
        findIndex_def commit_by_def author_of_def)
  have all: "map RemoteCommit_author (RemoteBranchData_commits sample_branch_data) =
     [author_of ''x@example.com'' ''X'', author_of ''y@example.com'' ''Y'',
      author_of ''x@example.com'' ''X again'']"
    by (simp add: sample_branch_data_def commit_by_def)
  from authors_first_occurrence [of sample_branch_data]
  have "distinct (map Author_email (RemoteBranchData_authors sample_branch_data))"
    and "set (map Author_email (RemoteBranchData_authors sample_branch_data)) =
       set (map Author_email (map RemoteCommit_author (RemoteBranchData_commits sample_branch_data)))"
    unfolding Let_def by blast+
  then show ?thesis using a all by (auto simp: author_of_def)
qed

subsection \<open>First and last commit\<close>

text \<open>
  Claim C9. On an empty \<open>commits\<close> array \<open>lastCommitTs\<close> returns undefined, while
  \<open>firstCommitAt\<close> reads \<open>createdAt\<close> of an element that does not exist and throws; on a
  non-empty array \<open>firstCommitAt\<close> returns the date of the last element (and
  \<open>lastCommitTs\<close> the date of the first). So \<open>firstCommitAt\<close> is defined exactly on
  non-empty \<open>commits\<close>.
\<close>

theorem commit_timestamps_on_empty:
  "(RemoteBranchData_commits d = [] \<longrightarrow>
      RemoteBranchData_lastCommitTs d = None \<and> RemoteBranchData_firstCommitAt d = Inl TypeError)
   \<and> (RemoteBranchData_commits d \<noteq> [] \<longrightarrow>
      RemoteBranchData_lastCommitTs d = Some (RemoteCommit_createdAt (hd (RemoteBranchData_commits d)))
      \<and> RemoteBranchData_firstCommitAt d =
          Inr (RemoteCommit_createdAt (last (RemoteBranchData_commits d))))"
  by (auto simp: RemoteBranchData_lastCommitTs_def RemoteBranchData_firstCommitAt_def
      at_index_def hd_conv_nth last_conv_nth nat_diff_distrib')

theorem commit_timestamps_on_empty_witness:
  "RemoteBranchData_commits (sample_branch_data\<lparr>RemoteBranchData_commits := []\<rparr>) = []
   \<and> RemoteBranchData_lastCommitTs (sample_branch_data\<lparr>RemoteBranchData_commits := []\<rparr>) = None
   \<and> RemoteBranchData_firstCommitAt (sample_branch_data\<lparr>RemoteBranchData_commits := []\<rparr>) =
       Inl TypeError
   \<and> RemoteBranchData_commits sample_branch_data \<noteq> []
   \<and> RemoteBranchData_lastCommitTs sample_branch_data = Some (Date 3000)
   \<and> RemoteBranchData_firstCommitAt sample_branch_data = Inr (Date 1000)"
  using commit_timestamps_on_empty [of "sample_branch_data\<lparr>RemoteBranchData_commits := []\<rparr>"]
    commit_timestamps_on_empty [of sample_branch_data]
  by (simp add: sample_branch_data_def commit_by_def)

section \<open>BaseBranch: forge and URLs\<close>

lemma afterTransform_commitUrl_keeps:
  "BaseBranch_forgeType (afterTransform_commitUrl ipv4_test b) = BaseBranch_forgeType b"
  "BaseBranch_repoBaseUrl (afterTransform_commitUrl ipv4_test b) = BaseBranch_repoBaseUrl b"
  "BaseBranch_gitPushRemote (afterTransform_commitUrl ipv4_test b) = BaseBranch_gitPushRemote b"
  by (simp_all add: afterTransform_commitUrl_def Let_def split: option.splits Forge.splits)

lemma afterTransform_branchUrl_keeps:
  "BaseBranch_forgeType (afterTransform_branchUrl b) = BaseBranch_forgeType b"
  "BaseBranch_repoBaseUrl (afterTransform_branchUrl b) = BaseBranch_repoBaseUrl b"
  "BaseBranch_gitPushRemote (afterTransform_branchUrl b) = BaseBranch_gitPushRemote b"
  by (simp_all add: afterTransform_branchUrl_def Let_def split: option.splits Forge.splits)

text \<open>Without a push remote, both \<open>if (this.gitPushRemote)\<close> blocks are skipped.\<close>

lemma afterTransform_no_push:
  "BaseBranch_gitPushRemote b = None \<Longrightarrow> afterTransform_commitUrl ipv4_test b = b"
  "BaseBranch_gitPushRemote b = None \<Longrightarrow> afterTransform_branchUrl b = b"
  by (simp_all add: afterTransform_commitUrl_def afterTransform_branchUrl_def)

lemma afterTransform_forge:
  assumes "GitUrlParse (BaseBranch_remoteUrl b) = Inr g"
  shows "\<exists>b'. afterTransform ipv4_test GitUrlParse b = Inr b'
      \<and> BaseBranch_forgeType b' = Some (getForgeType (GitUrl_resource g))
      \<and> BaseBranch_repoBaseUrl b' =
          Some ((if ipv4_test (GitUrl_resource g) then ''http'' else ''https'') @ ''://''
                @ GitUrl_resource g @ ''/'' @ GitUrl_owner g @ ''/'' @ GitUrl_name g)
      \<and> BaseBranch_gitPushRemote b' = BaseBranch_gitPushRemote b"
  using assms
  by (simp add: afterTransform_def Let_def afterTransform_commitUrl_keeps
      afterTransform_branchUrl_keeps)

text \<open>
  Claim C4. When \<open>remoteUrl\<close> parses, \<open>afterTransform\<close> returns, and \<open>forgeType\<close> is decided
  by substring tests on the host (\<open>resource\<close>) of the descriptor in the order
  \<open>github.com\<close>, \<open>gitlab.com\<close>, \<open>bitbucket.org\<close>, \<open>dev.azure.com\<close>, else Unknown. For
  \<open>git@github.com:owner/repo.git\<close> the parser yields host \<open>github.com\<close>, owner \<open>owner\<close> and
  name \<open>repo\<close>, and the host is no IPv4 address: then \<open>forgeType\<close> is GitHub and
  \<open>repoBaseUrl\<close> is \<open>https://github.com/owner/repo\<close>.
\<close>

theorem forgeType_by_host:
  assumes "GitUrlParse (BaseBranch_remoteUrl b) = Inr g"
  shows "\<exists>b'. afterTransform ipv4_test GitUrlParse b = Inr b'
      \<and> BaseBranch_forgeType b' =
          Some (if includes_str (GitUrl_resource g) ''github.com'' then GitHub
                else if includes_str (GitUrl_resource g) ''gitlab.com'' then GitLab
                else if includes_str (GitUrl_resource g) ''bitbucket.org'' then Bitbucket
                else if includes_str (GitUrl_resource g) ''dev.azure.com'' then AzureDevOps
                else Unknown)
      \<and> (GitUrl_resource g = ''github.com'' \<and> GitUrl_owner g = ''owner''
           \<and> GitUrl_name g = ''repo'' \<and> \<not> ipv4_test ''github.com''
         \<longrightarrow> BaseBranch_forgeType b' = Some GitHub
           \<and> BaseBranch_repoBaseUrl b' = Some ''https://github.com/owner/repo'')"
proof -
  from afterTransform_forge [where GitUrlParse = GitUrlParse and b = b and g = g
      and ipv4_test = ipv4_test, OF assms]
  obtain b' where
    b': "afterTransform ipv4_test GitUrlParse b = Inr b'"
    and f: "BaseBranch_forgeType b' = Some (getForgeType (GitUrl_resource g))"
    and r: "BaseBranch_repoBaseUrl b' =
          Some ((if ipv4_test (GitUrl_resource g) then ''http'' else ''https'') @ ''://''
                @ GitUrl_resource g @ ''/'' @ GitUrl_owner g @ ''/'' @ GitUrl_name g)"
    by blast
  have ex: "GitUrl_resource g = ''github.com'' \<and> GitUrl_owner g = ''owner''
           \<and> GitUrl_name g = ''repo'' \<and> \<not> ipv4_test ''github.com''
         \<longrightarrow> BaseBranch_forgeType b' = Some GitHub
           \<and> BaseBranch_repoBaseUrl b' = Some ''https://github.com/owner/repo''"
  proof
    assume h: "GitUrl_resource g = ''github.com'' \<and> GitUrl_owner g = ''owner''
           \<and> GitUrl_name g = ''repo'' \<and> \<not> ipv4_test ''github.com''"
    have "getForgeType ''github.com'' = GitHub" by (simp add: getForgeType_def)
    then show "BaseBranch_forgeType b' = Some GitHub
           \<and> BaseBranch_repoBaseUrl b' = Some ''https://github.com/owner/repo''"
      using f r h by simp
  qed
  show ?thesis
    using b' f ex unfolding getForgeType_def by blast
qed

theorem forgeType_by_host_witness:
  "sample_GitUrlParse (BaseBranch_remoteUrl sample_base_branch) = Inr sample_GitUrl
   \<and> map_sum id BaseBranch_forgeType
       (afterTransform ipv4_literal sample_GitUrlParse sample_base_branch) = Inr (Some GitHub)
   \<and> map_sum id BaseBranch_repoBaseUrl
       (afterTransform ipv4_literal sample_GitUrlParse sample_base_branch) =
       Inr (Some ''https://github.com/owner/repo'')"
proof -
  have p: "sample_GitUrlParse (BaseBranch_remoteUrl sample_base_branch) = Inr sample_GitUrl"
    by (simp add: sample_GitUrlParse_def sample_base_branch_def)
  have i: "\<not> ipv4_literal ''github.com''"
    by (simp add: ipv4_literal_def)
  have g: "GitUrl_resource sample_GitUrl = ''github.com'' \<and> GitUrl_owner sample_GitUrl = ''owner''
           \<and> GitUrl_name sample_GitUrl = ''repo''"
    by (simp add: sample_GitUrl_def)
  from forgeType_by_host [where GitUrlParse = sample_GitUrlParse and b = sample_base_branch
      and g = sample_GitUrl and ipv4_test = ipv4_literal, OF p] i g p
  show ?thesis by auto
qed

text \<open>
  Claim C5. A \<open>BaseBranch\<close> built from a payload without \<open>pushRemoteUrl\<close> has no push
  remote descriptor, and \<open>commitUrl\<close> and \<open>branchUrl\<close> return undefined for every argument,
  before \<open>afterTransform\<close> and after it, also when \<open>remoteUrl\<close> parses and \<open>forgeType\<close> is
  set: \<open>commitBaseUrl\<close> and the two generators stay undefined.
\<close>

theorem no_pushRemoteUrl_no_urls:
  assumes "BaseBranch_raw_pushRemoteUrl p = None"
  shows "\<exists>b. plainToInstance_BaseBranch GitUrlParse p = Inr b
      \<and> BaseBranch_gitPushRemote b = None
      \<and> commitUrl b commitId = None \<and> branchUrl b x = None
      \<and> (\<forall>g. GitUrlParse (BaseBranch_raw_remoteUrl p) = Inr g \<longrightarrow>
            (\<exists>b'. afterTransform ipv4_test GitUrlParse b = Inr b'
               \<and> BaseBranch_forgeType b' = Some (getForgeType (GitUrl_resource g))
               \<and> BaseBranch_commitBaseUrl b' = None
               \<and> BaseBranch_generateCommitUrl b' = None
               \<and> BaseBranch_generateBranchUrl b' = None
               \<and> commitUrl b' commitId = None \<and> branchUrl b' x = None))"
  using assms
  by (auto simp: plainToInstance_BaseBranch_def gitPushRemote_Transform_def commitUrl_def
      branchUrl_def afterTransform_def afterTransform_no_push Let_def split: option.splits)

theorem no_pushRemoteUrl_no_urls_witness:
  "BaseBranch_raw_pushRemoteUrl sample_base_branch_raw = None
   \<and> plainToInstance_BaseBranch sample_GitUrlParse sample_base_branch_raw = Inr sample_base_branch
   \<and> commitUrl sample_base_branch ''abc123'' = None
   \<and> branchUrl sample_base_branch (Some ''refs/remotes/origin/feature'') = None
   \<and> map_sum id (\<lambda>b. (BaseBranch_forgeType b, commitUrl b ''abc123'',
                        branchUrl b (Some ''refs/remotes/origin/feature'')))
       (afterTransform ipv4_literal sample_GitUrlParse sample_base_branch) =
       Inr (Some GitHub, None, None)"
proof -
  have n: "BaseBranch_raw_pushRemoteUrl sample_base_branch_raw = None"
    by (simp add: sample_base_branch_raw_def)
  have b: "plainToInstance_BaseBranch sample_GitUrlParse sample_base_branch_raw =
      Inr sample_base_branch"
    by (simp add: plainToInstance_BaseBranch_def gitPushRemote_Transform_def
        sample_base_branch_raw_def sample_base_branch_def)
  have g: "sample_GitUrlParse (BaseBranch_raw_remoteUrl sample_base_branch_raw) =
      Inr sample_GitUrl"
    by (simp add: sample_GitUrlParse_def sample_base_branch_raw_def)
  have f: "getForgeType (GitUrl_resource sample_GitUrl) = GitHub"
    by (simp add: getForgeType_def sample_GitUrl_def)
  from no_pushRemoteUrl_no_urls [where p = sample_base_branch_raw
      and GitUrlParse = sample_GitUrlParse and commitId = "''abc123''"
      and x = "Some ''refs/remotes/origin/feature''" and ipv4_test = ipv4_literal, OF n] b g f
  show ?thesis using n by auto
qed




end
